theory Spec2Isabelle
  imports Complex_Main
begin

section \<open>Numbers of the source\<close>

text \<open>
  The analyzer (\<^verbatim>\<open>posture_analyzer.py\<close>) computes on Python \<^verbatim>\<open>int\<close>s (pixel
  coordinates, angles in whole degrees) and on Python \<^verbatim>\<open>float\<close>s (normalised
  coordinates, visibilities, the shoulder distance, the forward-head ratio).
  Integers are \<^typ>\<open>int\<close>. A float is modelled by the real number it denotes and
  the operations of \<^verbatim>\<open>math\<close> by their mathematical meaning: rounding to
  binary64, infinities and NaN are outside this model.
\<close>

text \<open>\<^verbatim>\<open>int(v)\<close> on a float: the integer part, truncated toward zero.\<close>

definition py_int :: "real \<Rightarrow> int" where
  "py_int v = (if 0 \<le> v then \<lfloor>v\<rfloor> else \<lceil>v\<rceil>)"

text \<open>
  \<^verbatim>\<open>math.atan2(y, x)\<close>: the angle of the point \<open>(x, y)\<close>, in \<open>(-pi, pi]\<close>, and
  \<open>0\<close> at the origin.
\<close>

definition atan2 :: "real \<Rightarrow> real \<Rightarrow> real" where
  "atan2 y x =
     (if 0 < x then arctan (y / x)
      else if x < 0 then (if 0 \<le> y then arctan (y / x) + pi else arctan (y / x) - pi)
      else if 0 < y then pi / 2
      else if y < 0 then - (pi / 2)
      else 0)"

text \<open>\<^verbatim>\<open>math.degrees(r)\<close>: radians to degrees.\<close>

definition degrees :: "real \<Rightarrow> real" where
  "degrees r = r * 180 / pi"

section \<open>Geometry\<close>

text \<open>
  \<^verbatim>\<open>find_distance(x1, y1, x2, y2)\<close>:
  \<^verbatim>\<open>math.sqrt((x2 - x1) ** 2 + (y2 - y1) ** 2)\<close>.
\<close>

definition find_distance :: "real \<Rightarrow> real \<Rightarrow> real \<Rightarrow> real \<Rightarrow> real" where
  "find_distance x1 y1 x2 y2 = sqrt ((x2 - x1)\<^sup>2 + (y2 - y1)\<^sup>2)"

text \<open>
  \<^verbatim>\<open>find_angle(x1, y1, x2, y2)\<close>:
  \<^verbatim>\<open>int(math.degrees(math.atan2(abs(x2 - x1), abs(y2 - y1))))\<close>.
  The source wraps the two lines in \<^verbatim>\<open>try ... except (ZeroDivisionError, ValueError)\<close>
  returning \<open>0\<close>; none of \<open>atan2\<close>, \<open>degrees\<close> and \<open>py_int\<close> has a failing
  case on the reals, so the handler has no branch here.
\<close>

definition find_angle :: "real \<Rightarrow> real \<Rightarrow> real \<Rightarrow> real \<Rightarrow> int" where
  "find_angle x1 y1 x2 y2 =
     (let angle = degrees (atan2 \<bar>x2 - x1\<bar> \<bar>y2 - y1\<bar>)
      in py_int angle)"

section \<open>Landmarks, detection results and frames\<close>

text \<open>
  A landmark of the detector: normalised position and visibility (the fields
  \<^verbatim>\<open>x\<close>, \<^verbatim>\<open>y\<close>, \<^verbatim>\<open>visibility\<close> of the source).
\<close>

record landmark =
  lm_x :: real
  lm_y :: real
  lm_visibility :: real

text \<open>
  The members of the detector's enumeration \<^verbatim>\<open>PoseLandmark\<close> that the analyzer
  reads, and their positions in the landmark list (the values of the enumeration in
  the detector library, which is not part of the repository).
\<close>

datatype PoseLandmark =
  NOSE | LEFT_EYE | RIGHT_EYE | LEFT_EAR | RIGHT_EAR
  | LEFT_SHOULDER | RIGHT_SHOULDER | LEFT_HIP | RIGHT_HIP

fun landmark_index :: "PoseLandmark \<Rightarrow> nat" where
  "landmark_index NOSE = 0"
| "landmark_index LEFT_EYE = 2"
| "landmark_index RIGHT_EYE = 5"
| "landmark_index LEFT_EAR = 7"
| "landmark_index RIGHT_EAR = 8"
| "landmark_index LEFT_SHOULDER = 11"
| "landmark_index RIGHT_SHOULDER = 12"
| "landmark_index LEFT_HIP = 23"
| "landmark_index RIGHT_HIP = 24"

text \<open>
  Exceptions as values. The handler of \<^verbatim>\<open>analyze_posture\<close> names two classes;
  every other class is \<open>OtherError\<close>. Each carries its text (\<^verbatim>\<open>str(e)\<close>).
\<close>

datatype py_error = IndexError string | AttributeError string | OtherError string

fun str_error :: "py_error \<Rightarrow> string" where
  "str_error (IndexError m) = m"
| "str_error (AttributeError m) = m"
| "str_error (OtherError m) = m"

definition bind_result :: "py_error + 'a \<Rightarrow> ('a \<Rightarrow> py_error + 'b) \<Rightarrow> py_error + 'b" where
  "bind_result m f = (case m of Inl e \<Rightarrow> Inl e | Inr v \<Rightarrow> f v)"

text \<open>
  \<^verbatim>\<open>lm[lmPose.K]\<close>: indexing the landmark list; out of range it raises
  \<^verbatim>\<open>IndexError\<close> (the text is that of a Python list).
\<close>

definition lm_get :: "landmark list \<Rightarrow> PoseLandmark \<Rightarrow> py_error + landmark" where
  "lm_get lm k =
     (if landmark_index k < length lm then Inr (lm ! landmark_index k)
      else Inl (IndexError ''list index out of range''))"

text \<open>
  The detector's result object: \<^verbatim>\<open>results.pose_landmarks\<close> is \<^verbatim>\<open>None\<close> or holds
  the landmark list. \<^verbatim>\<open>results\<close> itself may be \<^verbatim>\<open>None\<close> (\<^verbatim>\<open>process_frame\<close>
  returns it for an empty frame), hence \<open>pose_results option\<close> below.
\<close>

record pose_results =
  pose_landmarks :: "landmark list option"

text \<open>
  A frame: the pixel buffer as it arrived, its \<^verbatim>\<open>shape[:2]\<close> (height, width) and
  the drawing calls made on it so far, in order. The pixels after drawing are a
  function of these three.
\<close>

type_synonym point = "int \<times> int"

type_synonym colour = "nat \<times> nat \<times> nat"

datatype draw_op =
  Line point point colour nat
  | PutText string point real colour nat

record 'a frame =
  buffer :: 'a
  shape :: "int \<times> int"
  drawn :: "draw_op list"

definition cv2_line :: "'a frame \<Rightarrow> point \<Rightarrow> point \<Rightarrow> colour \<Rightarrow> nat \<Rightarrow> 'a frame" where
  "cv2_line f p q c t = f\<lparr>drawn := drawn f @ [Line p q c t]\<rparr>"

definition cv2_putText :: "'a frame \<Rightarrow> string \<Rightarrow> point \<Rightarrow> real \<Rightarrow> colour \<Rightarrow> nat \<Rightarrow> 'a frame" where
  "cv2_putText f s p scale c t = f\<lparr>drawn := drawn f @ [PutText s p scale c t]\<rparr>"

section \<open>The assessment\<close>

text \<open>
  The dictionaries of the result keep their insertion order: association lists,
  looked up with \<^const>\<open>map_of\<close>.
\<close>

record full_assessment =
  shoulder_offset :: int
  shoulder_distance :: real
  neck_inclination :: int
  torso_inclination :: int
  forward_head_ratio :: real
  is_aligned :: bool
  is_neck_good :: bool
  is_torso_good :: bool
  is_head_position_good :: bool
  is_good_posture :: bool
  posture_assessment :: "(string \<times> string) list"
  visibility :: "(string \<times> real) list"
  landmarks :: "(string \<times> point) list"

text \<open>
  The two shapes of the returned dictionary: with \<^verbatim>\<open>"has_landmarks": False\<close> a
  message and, for the visibility gate only, the visibility dictionary; with
  \<^verbatim>\<open>"has_landmarks": True\<close> the full assessment.
\<close>

datatype posture_data =
  Unavailable string "(string \<times> real) list option"
  | Assessment full_assessment

fun has_landmarks :: "posture_data \<Rightarrow> bool" where
  "has_landmarks (Unavailable m v) = False"
| "has_landmarks (Assessment a) = True"

text \<open>
  The metrics and the classification of \<^verbatim>\<open>analyze_posture\<close>: the statements of
  its \<^verbatim>\<open>try\<close> body after the visibility gate (projection to pixels, midpoints,
  metrics, thresholds, labels and the returned dictionary), as a function of the six
  landmarks they read, the visibility dictionary built before the gate and the
  frame's height and width.
\<close>

definition analyze_posture_metrics ::
  "landmark \<Rightarrow> landmark \<Rightarrow> landmark \<Rightarrow> landmark \<Rightarrow> landmark \<Rightarrow> landmark \<Rightarrow>
     (string \<times> real) list \<Rightarrow> int \<Rightarrow> int \<Rightarrow> full_assessment" where
  "analyze_posture_metrics left_ear right_ear left_shoulder right_shoulder left_hip right_hip
       landmarks_visibility h w =
     (let l_shldr_x = py_int (lm_x left_shoulder * of_int w);
          l_shldr_y = py_int (lm_y left_shoulder * of_int h);
          r_shldr_x = py_int (lm_x right_shoulder * of_int w);
          r_shldr_y = py_int (lm_y right_shoulder * of_int h);
          l_ear_x = py_int (lm_x left_ear * of_int w);
          l_ear_y = py_int (lm_y left_ear * of_int h);
          r_ear_x = py_int (lm_x right_ear * of_int w);
          r_ear_y = py_int (lm_y right_ear * of_int h);
          l_hip_x = py_int (lm_x left_hip * of_int w);
          l_hip_y = py_int (lm_y left_hip * of_int h);
          r_hip_x = py_int (lm_x right_hip * of_int w);
          r_hip_y = py_int (lm_y right_hip * of_int h);
          mid_shoulder_x = (l_shldr_x + r_shldr_x) div 2;
          mid_shoulder_y = (l_shldr_y + r_shldr_y) div 2;
          mid_hip_x = (l_hip_x + r_hip_x) div 2;
          mid_hip_y = (l_hip_y + r_hip_y) div 2;
          mid_ear_x = (l_ear_x + r_ear_x) div 2;
          mid_ear_y = (l_ear_y + r_ear_y) div 2;
          shoulder_offset = \<bar>l_shldr_y - r_shldr_y\<bar>;
          shoulder_distance =
            find_distance (of_int l_shldr_x) (of_int l_shldr_y)
              (of_int r_shldr_x) (of_int r_shldr_y);
          neck_inclination =
            find_angle (of_int mid_shoulder_x) (of_int mid_shoulder_y)
              (of_int mid_ear_x) (of_int mid_ear_y);
          torso_inclination =
            find_angle (of_int mid_hip_x) (of_int mid_hip_y)
              (of_int mid_shoulder_x) (of_int mid_shoulder_y);
          forward_head_distance =
            (if mid_ear_x > mid_shoulder_x then mid_ear_x - mid_shoulder_x else 0);
          forward_head_ratio =
            (if shoulder_distance > 0
             then of_int forward_head_distance / shoulder_distance else 0);
          is_aligned = (shoulder_offset < 30);
          is_neck_good = (neck_inclination < 35);
          is_torso_good = (torso_inclination < 10);
          is_head_position_good = (forward_head_ratio < 2 / 10);
          is_good_posture =
            (is_aligned \<and> is_neck_good \<and> is_torso_good \<and> is_head_position_good);
          posture_assessment =
            [(''shoulder_balance'', if is_aligned then ''Good'' else ''Poor''),
             (''neck_position'', if is_neck_good then ''Good'' else ''Forward head posture''),
             (''torso_position'', if is_torso_good then ''Good'' else ''Slouching''),
             (''overall'', if is_good_posture then ''Good'' else ''Needs improvement'')]
      in \<lparr>shoulder_offset = shoulder_offset,
          shoulder_distance = shoulder_distance,
          neck_inclination = neck_inclination,
          torso_inclination = torso_inclination,
          forward_head_ratio = forward_head_ratio,
          is_aligned = is_aligned,
          is_neck_good = is_neck_good,
          is_torso_good = is_torso_good,
          is_head_position_good = is_head_position_good,
          is_good_posture = is_good_posture,
          posture_assessment = posture_assessment,
          visibility = landmarks_visibility,
          landmarks =
            [(''mid_shoulder'', (mid_shoulder_x, mid_shoulder_y)),
             (''mid_hip'', (mid_hip_x, mid_hip_y)),
             (''mid_ear'', (mid_ear_x, mid_ear_y)),
             (''l_shldr'', (l_shldr_x, l_shldr_y)),
             (''r_shldr'', (r_shldr_x, r_shldr_y)),
             (''l_ear'', (l_ear_x, l_ear_y)),
             (''r_ear'', (r_ear_x, r_ear_y)),
             (''l_hip'', (l_hip_x, l_hip_y)),
             (''r_hip'', (r_hip_x, r_hip_y))]\<rparr>)"

text \<open>
  \<^verbatim>\<open>analyze_posture(results, frame)\<close>. The presence check and the read of the frame's
  shape come before the \<^verbatim>\<open>try\<close>; the nine lookups, the visibility gate and the
  metrics are its body; the handler turns an \<^verbatim>\<open>IndexError\<close> or \<^verbatim>\<open>AttributeError\<close>
  of the body into a result and lets any other exception through.
\<close>

definition analyze_posture :: "pose_results option \<Rightarrow> 'a frame \<Rightarrow> py_error + posture_data" where
  "analyze_posture results frame =
     (case (case results of None \<Rightarrow> None | Some r \<Rightarrow> pose_landmarks r) of
        None \<Rightarrow> Inr (Unavailable ''No pose landmarks detected.'' None)
      | Some lm \<Rightarrow>
          (let (h, w) = shape frame in
           (case
              bind_result (lm_get lm NOSE) (\<lambda>nose.
              bind_result (lm_get lm LEFT_EYE) (\<lambda>left_eye.
              bind_result (lm_get lm RIGHT_EYE) (\<lambda>right_eye.
              bind_result (lm_get lm LEFT_EAR) (\<lambda>left_ear.
              bind_result (lm_get lm RIGHT_EAR) (\<lambda>right_ear.
              bind_result (lm_get lm LEFT_SHOULDER) (\<lambda>left_shoulder.
              bind_result (lm_get lm RIGHT_SHOULDER) (\<lambda>right_shoulder.
              bind_result (lm_get lm LEFT_HIP) (\<lambda>left_hip.
              bind_result (lm_get lm RIGHT_HIP) (\<lambda>right_hip.
                let landmarks_visibility =
                      [(''l_shoulder'', lm_visibility left_shoulder),
                       (''r_shoulder'', lm_visibility right_shoulder),
                       (''l_ear'', lm_visibility left_ear),
                       (''r_ear'', lm_visibility right_ear),
                       (''l_hip'', lm_visibility left_hip),
                       (''r_hip'', lm_visibility right_hip)];
                    visibility_threshold = 1 / 2
                in
                if lm_visibility left_shoulder < visibility_threshold \<or>
                   lm_visibility right_shoulder < visibility_threshold \<or>
                   lm_visibility left_hip < visibility_threshold
                then Inr (Unavailable ''Key landmarks not visible enough''
                            (Some landmarks_visibility))
                else Inr (Assessment
                       (analyze_posture_metrics left_ear right_ear left_shoulder
                          right_shoulder left_hip right_hip landmarks_visibility h w)))))))))))
            of
              Inr d \<Rightarrow> Inr d
            | Inl (IndexError m) \<Rightarrow>
                Inr (Unavailable (''Error processing landmarks: '' @ m) None)
            | Inl (AttributeError m) \<Rightarrow>
                Inr (Unavailable (''Error processing landmarks: '' @ m) None)
            | Inl (OtherError m) \<Rightarrow> Inl (OtherError m))))"

section \<open>The overlay\<close>

text \<open>\<^verbatim>\<open>str(n)\<close> on an integer, for the f-strings of the overlay.\<close>

definition digit_char :: "nat \<Rightarrow> char" where
  "digit_char n = ''0123456789'' ! n"

fun str_nat :: "nat \<Rightarrow> string" where
  "str_nat n =
     (if n < 10 then [digit_char n] else str_nat (n div 10) @ [digit_char (n mod 10)])"

declare str_nat.simps [simp del]

definition str_int :: "int \<Rightarrow> string" where
  "str_int i = (if i < 0 then ''-'' @ str_nat (nat (- i)) else str_nat (nat i))"

text \<open>
  \<^verbatim>\<open>draw_pose_annotations(frame, posture_data)\<close>. \<^verbatim>\<open>posture_data\<close> may be \<^verbatim>\<open>None\<close>;
  the lookups \<^verbatim>\<open>.get(key, default)\<close> and the tests \<^verbatim>\<open>key in landmarks\<close> are
  lookups in the association lists. The degree sign of the two angle texts is the
  character U+00B0.
\<close>

definition draw_pose_annotations :: "'a frame \<Rightarrow> posture_data option \<Rightarrow> 'a frame" where
  "draw_pose_annotations frame posture_data =
     (case posture_data of
        None \<Rightarrow> frame
      | Some (Unavailable m v) \<Rightarrow> frame
      | Some (Assessment a) \<Rightarrow>
          (let lms = map_of (landmarks a);
               good_color = (0, 255, 0);
               bad_color = (0, 0, 255);
               color = (if is_good_posture a then good_color else bad_color);
               frame1 =
                 (case (lms ''mid_shoulder'', lms ''mid_ear'') of
                    (Some p, Some q) \<Rightarrow> cv2_line frame p q color 2
                  | _ \<Rightarrow> frame);
               frame2 =
                 (case (lms ''mid_shoulder'', lms ''mid_hip'') of
                    (Some p, Some q) \<Rightarrow> cv2_line frame1 p q color 2
                  | _ \<Rightarrow> frame1);
               frame3 =
                 (case lms ''mid_shoulder'' of
                    Some (mid_x, mid_y) \<Rightarrow>
                      cv2_line frame2 (mid_x, mid_y) (mid_x, mid_y - 150) (255, 255, 0) 2
                  | None \<Rightarrow> frame2);
               frame4 =
                 (case (lms ''l_shldr'', lms ''r_shldr'') of
                    (Some p, Some q) \<Rightarrow> cv2_line frame3 p q color 3
                  | _ \<Rightarrow> frame3);
               (h, w) = shape frame4;
               neck_angle = neck_inclination a;
               torso_angle = torso_inclination a;
               frame5 =
                 cv2_putText frame4 (''Neck: '' @ str_int neck_angle @ [CHR 0xB0])
                   (10, 30) (6 / 10) color 2;
               frame6 =
                 cv2_putText frame5 (''Torso: '' @ str_int torso_angle @ [CHR 0xB0])
                   (10, 60) (6 / 10) color 2
           in
           if posture_assessment a \<noteq> []
           then
             (let overall =
                    (case map_of (posture_assessment a) ''overall'' of
                       Some s \<Rightarrow> s | None \<Rightarrow> [])
              in cv2_putText frame6 (''Posture: '' @ overall) (10, h - 20) (6 / 10) color 2)
           else frame6))"

section \<open>Notions used in the statements\<close>

text \<open>
  The projection of a landmark to pixels and the integer midpoint of two pixels, as
  \<^const>\<open>analyze_posture_metrics\<close> computes them inline; and the visibility
  dictionary of a landmark list.
\<close>

definition pixel_of :: "landmark \<Rightarrow> int \<Rightarrow> int \<Rightarrow> point" where
  "pixel_of p h w = (py_int (lm_x p * of_int w), py_int (lm_y p * of_int h))"

definition midpoint :: "point \<Rightarrow> point \<Rightarrow> point" where
  "midpoint p q = ((fst p + fst q) div 2, (snd p + snd q) div 2)"

definition visibility_map :: "landmark list \<Rightarrow> (string \<times> real) list" where
  "visibility_map lm =
     [(''l_shoulder'', lm_visibility (lm ! 11)),
      (''r_shoulder'', lm_visibility (lm ! 12)),
      (''l_ear'', lm_visibility (lm ! 7)),
      (''r_ear'', lm_visibility (lm ! 8)),
      (''l_hip'', lm_visibility (lm ! 23)),
      (''r_hip'', lm_visibility (lm ! 24))]"

text \<open>A detector result that holds the landmark list \<open>lm\<close>.\<close>

definition detected :: "landmark list \<Rightarrow> pose_results option" where
  "detected lm = Some \<lparr>pose_landmarks = Some lm\<rparr>"

section \<open>Example inputs\<close>

text \<open>
  A landmark list with the 33 landmarks of the pose model, of which the six that
  enter the metrics are given; and a frame of 640 by 400 pixels with nothing drawn.
  The normalised coordinates of the examples are the pixels divided by 640 and by
  400.
\<close>

definition lmk :: "real \<Rightarrow> real \<Rightarrow> real \<Rightarrow> landmark" where
  "lmk px py v = \<lparr>lm_x = px, lm_y = py, lm_visibility = v\<rparr>"

definition landmarks_of ::
  "landmark \<Rightarrow> landmark \<Rightarrow> landmark \<Rightarrow> landmark \<Rightarrow> landmark \<Rightarrow> landmark \<Rightarrow> landmark list" where
  "landmarks_of left_ear right_ear left_shoulder right_shoulder left_hip right_hip =
     (let b = lmk 0 0 0 in
      [b, b, b, b, b, b, b, left_ear, right_ear, b, b, left_shoulder, right_shoulder,
       b, b, b, b, b, b, b, b, b, b, left_hip, right_hip, b, b, b, b, b, b, b, b])"

definition example_frame :: "unit frame" where
  "example_frame = \<lparr>buffer = (), shape = (400, 640), drawn = []\<rparr>"

text \<open>
  Scenario A of the specification: shoulders at (100, 200) and (140, 200), ears at
  (110, 150) and (130, 150), hips at (100, 300) and (140, 300), all fully visible.
\<close>

definition scenario_A :: "landmark list" where
  "scenario_A =
     landmarks_of (lmk (11 / 64) (3 / 8) 1) (lmk (13 / 64) (3 / 8) 1)
       (lmk (5 / 32) (1 / 2) 1) (lmk (7 / 32) (1 / 2) 1)
       (lmk (5 / 32) (3 / 4) 1) (lmk (7 / 32) (3 / 4) 1)"

definition scenario_A_assessment :: full_assessment where
  "scenario_A_assessment =
     \<lparr>shoulder_offset = 0, shoulder_distance = 40, neck_inclination = 0,
      torso_inclination = 0, forward_head_ratio = 0,
      is_aligned = True, is_neck_good = True, is_torso_good = True,
      is_head_position_good = True, is_good_posture = True,
      posture_assessment =
        [(''shoulder_balance'', ''Good''), (''neck_position'', ''Good''),
         (''torso_position'', ''Good''), (''overall'', ''Good'')],
      visibility =
        [(''l_shoulder'', 1), (''r_shoulder'', 1), (''l_ear'', 1), (''r_ear'', 1),
         (''l_hip'', 1), (''r_hip'', 1)],
      landmarks =
        [(''mid_shoulder'', (120, 200)), (''mid_hip'', (120, 300)), (''mid_ear'', (120, 150)),
         (''l_shldr'', (100, 200)), (''r_shldr'', (140, 200)),
         (''l_ear'', (110, 150)), (''r_ear'', (130, 150)),
         (''l_hip'', (100, 300)), (''r_hip'', (140, 300))]\<rparr>"

text \<open>
  As A with the right shoulder at (140, 230): the shoulder offset is exactly 30 and
  the shoulder distance is 50. The normalised height 295/512 projects to 230.47,
  truncated to 230.
\<close>

definition tilted_shoulders :: "landmark list" where
  "tilted_shoulders =
     landmarks_of (lmk (11 / 64) (3 / 8) 1) (lmk (13 / 64) (3 / 8) 1)
       (lmk (5 / 32) (1 / 2) 1) (lmk (7 / 32) (295 / 512) 1)
       (lmk (5 / 32) (3 / 4) 1) (lmk (7 / 32) (3 / 4) 1)"

definition tilted_shoulders_assessment :: full_assessment where
  "tilted_shoulders_assessment =
     \<lparr>shoulder_offset = 30, shoulder_distance = 50, neck_inclination = 0,
      torso_inclination = 0, forward_head_ratio = 0,
      is_aligned = False, is_neck_good = True, is_torso_good = True,
      is_head_position_good = True, is_good_posture = False,
      posture_assessment =
        [(''shoulder_balance'', ''Poor''), (''neck_position'', ''Good''),
         (''torso_position'', ''Good''), (''overall'', ''Needs improvement'')],
      visibility =
        [(''l_shoulder'', 1), (''r_shoulder'', 1), (''l_ear'', 1), (''r_ear'', 1),
         (''l_hip'', 1), (''r_hip'', 1)],
      landmarks =
        [(''mid_shoulder'', (120, 215)), (''mid_hip'', (120, 300)), (''mid_ear'', (120, 150)),
         (''l_shldr'', (100, 200)), (''r_shldr'', (140, 230)),
         (''l_ear'', (110, 150)), (''r_ear'', (130, 150)),
         (''l_hip'', (100, 300)), (''r_hip'', (140, 300))]\<rparr>"

text \<open>
  Scenario B: as A with the ears at (150, 150) and (170, 150), so that the ear
  midpoint is (160, 150).
\<close>

definition scenario_B :: "landmark list" where
  "scenario_B =
     landmarks_of (lmk (15 / 64) (3 / 8) 1) (lmk (17 / 64) (3 / 8) 1)
       (lmk (5 / 32) (1 / 2) 1) (lmk (7 / 32) (1 / 2) 1)
       (lmk (5 / 32) (3 / 4) 1) (lmk (7 / 32) (3 / 4) 1)"

text \<open>Scenario C: as A with the right shoulder at visibility 0.3.\<close>

definition scenario_C :: "landmark list" where
  "scenario_C =
     landmarks_of (lmk (11 / 64) (3 / 8) 1) (lmk (13 / 64) (3 / 8) 1)
       (lmk (5 / 32) (1 / 2) 1) (lmk (7 / 32) (1 / 2) (3 / 10))
       (lmk (5 / 32) (3 / 4) 1) (lmk (7 / 32) (3 / 4) 1)"

text \<open>As A with every tracked visibility exactly 0.5.\<close>

definition at_threshold :: "landmark list" where
  "at_threshold =
     landmarks_of (lmk (11 / 64) (3 / 8) (1 / 2)) (lmk (13 / 64) (3 / 8) (1 / 2))
       (lmk (5 / 32) (1 / 2) (1 / 2)) (lmk (7 / 32) (1 / 2) (1 / 2))
       (lmk (5 / 32) (3 / 4) (1 / 2)) (lmk (7 / 32) (3 / 4) (1 / 2))"

text \<open>
  As B with both ears and the right hip at visibility 0 and the three gating
  landmarks at 0.5.
\<close>

definition hidden_ears :: "landmark list" where
  "hidden_ears =
     landmarks_of (lmk (15 / 64) (3 / 8) 0) (lmk (17 / 64) (3 / 8) 0)
       (lmk (5 / 32) (1 / 2) (1 / 2)) (lmk (7 / 32) (1 / 2) (1 / 2))
       (lmk (5 / 32) (3 / 4) (1 / 2)) (lmk (7 / 32) (3 / 4) 0)"

text \<open>
  A degenerate frame: both shoulders at (100, 200), both ears at (150, 150), both
  hips at (100, 300). The shoulder distance is 0 while the ears are 50 pixels ahead.
\<close>

definition degenerate :: "landmark list" where
  "degenerate =
     landmarks_of (lmk (15 / 64) (3 / 8) 1) (lmk (15 / 64) (3 / 8) 1)
       (lmk (5 / 32) (1 / 2) 1) (lmk (5 / 32) (1 / 2) 1)
       (lmk (5 / 32) (3 / 4) 1) (lmk (5 / 32) (3 / 4) 1)"

definition degenerate_assessment :: full_assessment where
  "degenerate_assessment =
     \<lparr>shoulder_offset = 0, shoulder_distance = 0, neck_inclination = 45,
      torso_inclination = 0, forward_head_ratio = 0,
      is_aligned = True, is_neck_good = False, is_torso_good = True,
      is_head_position_good = True, is_good_posture = False,
      posture_assessment =
        [(''shoulder_balance'', ''Good''), (''neck_position'', ''Forward head posture''),
         (''torso_position'', ''Good''), (''overall'', ''Needs improvement'')],
      visibility =
        [(''l_shoulder'', 1), (''r_shoulder'', 1), (''l_ear'', 1), (''r_ear'', 1),
         (''l_hip'', 1), (''r_hip'', 1)],
      landmarks =
        [(''mid_shoulder'', (100, 200)), (''mid_hip'', (100, 300)), (''mid_ear'', (150, 150)),
         (''l_shldr'', (100, 200)), (''r_shldr'', (100, 200)),
         (''l_ear'', (150, 150)), (''r_ear'', (150, 150)),
         (''l_hip'', (100, 300)), (''r_hip'', (100, 300))]\<rparr>"

text \<open>A landmark list that stops after the left shoulder (12 entries).\<close>

definition truncated_pose :: "landmark list" where
  "truncated_pose = replicate 12 (lmk (1 / 2) (1 / 2) 1)"

section \<open>Bounds for the arctangent and for pi\<close>

lemma arctan_le_arg:
  assumes "0 \<le> x"
  shows "arctan x \<le> x"
proof -
  have "(\<lambda>t. t - arctan t) 0 \<le> (\<lambda>t. t - arctan t) x"
  proof (rule DERIV_nonneg_imp_nondecreasing [OF assms])
    fix t :: real
    have "((\<lambda>t. t - arctan t) has_real_derivative (1 - inverse (1 + t\<^sup>2))) (at t)"
      by (auto intro!: derivative_eq_intros)
    moreover have "inverse (1 + t\<^sup>2) \<le> 1"
      by (rule inverse_le_1_iff [THEN iffD2]) simp
    ultimately show "\<exists>d. ((\<lambda>t. t - arctan t) has_real_derivative d) (at t) \<and> 0 \<le> d"
      by (intro exI [of _ "1 - inverse (1 + t\<^sup>2)"]) simp
  qed
  then show ?thesis by simp
qed

lemma arctan_ge_cubic:
  assumes "0 \<le> x"
  shows "x - x ^ 3 / 3 \<le> arctan x"
proof -
  let ?g = "\<lambda>t. arctan t - (t - t ^ 3 / 3)"
  have "?g 0 \<le> ?g x"
  proof (rule DERIV_nonneg_imp_nondecreasing [OF assms])
    fix t :: real
    have "(?g has_real_derivative (inverse (1 + t\<^sup>2) - (1 - t\<^sup>2))) (at t)"
      by (auto intro!: derivative_eq_intros)
    moreover have "0 \<le> inverse (1 + t\<^sup>2) - (1 - t\<^sup>2)"
    proof -
      have "0 < 1 + t\<^sup>2" by (simp add: add_pos_nonneg)
      then have "inverse (1 + t\<^sup>2) - (1 - t\<^sup>2) = t ^ 4 / (1 + t\<^sup>2)"
        by (simp add: field_simps power2_eq_square power4_eq_xxxx)
      then show ?thesis by simp
    qed
    ultimately show "\<exists>d. (?g has_real_derivative d) (at t) \<and> 0 \<le> d"
      by blast
  qed
  then show ?thesis by simp
qed

lemma pi_upper: "pi \<le> 16 / 5"
proof -
  have "pi = 16 * arctan (1 / 5) - 4 * arctan (1 / 239)" using machin by simp
  moreover have "arctan (1 / 5) \<le> 1 / 5" by (rule arctan_le_arg) simp
  moreover have "0 \<le> arctan (1 / 239)" by simp
  ultimately show ?thesis by linarith
qed

lemma pi_lower: "157 / 50 \<le> pi"
proof -
  have "pi = 16 * arctan (1 / 5) - 4 * arctan (1 / 239)" using machin by simp
  moreover have "1 / 5 - (1 / 5) ^ 3 / 3 \<le> arctan (1 / 5)" by (rule arctan_ge_cubic) simp
  moreover have "arctan (1 / 239) \<le> 1 / 239" by (rule arctan_le_arg) simp
  ultimately show ?thesis by (simp add: power3_eq_cube)
qed

lemma arctan_four_fifths: "arctan (4 / 5) = pi / 4 - arctan (1 / 9)"
proof -
  have "arctan (4 / 5) + arctan (1 / 9) = arctan ((4 / 5 + 1 / 9) / (1 - 4 / 5 * (1 / 9)))"
    by (rule arctan_add) simp_all
  also have "\<dots> = arctan 1" by simp
  finally show ?thesis by (simp add: arctan_one)
qed

section \<open>The geometry functions\<close>


lemma py_int_of_int: "py_int (of_int n) = n"
  by (simp add: py_int_def)




lemma find_angle_vertical: "find_angle x y1 x y2 = 0"
  by (simp add: find_angle_def atan2_def degrees_def py_int_def)

lemma find_angle_diagonal:
  assumes "\<bar>x2 - x1\<bar> = \<bar>y2 - y1\<bar>" and "x1 \<noteq> x2"
  shows "find_angle x1 y1 x2 y2 = 45"
proof -
  from assms have pos: "0 < \<bar>y2 - y1\<bar>" by simp
  then have "atan2 \<bar>x2 - x1\<bar> \<bar>y2 - y1\<bar> = arctan 1"
    unfolding atan2_def assms(1) by simp
  then have "atan2 \<bar>x2 - x1\<bar> \<bar>y2 - y1\<bar> = pi / 4"
    by (simp only: arctan_one)
  moreover have "degrees (pi / 4) = 45"
    by (simp add: degrees_def)
  ultimately have "degrees (atan2 \<bar>x2 - x1\<bar> \<bar>y2 - y1\<bar>) = 45"
    by (simp only:)
  then show ?thesis by (simp add: find_angle_def py_int_def)
qed

lemma find_angle_scenario_B: "find_angle 120 200 160 150 = 38"
proof -
  have a: "atan2 \<bar>160 - 120\<bar> \<bar>150 - 200\<bar> = arctan (4 / 5)"
    by (simp add: atan2_def)
  have u: "arctan (1 / 9) \<le> 1 / 9" by (rule arctan_le_arg) simp
  have l: "1 / 9 - (1 / 9) ^ 3 / 3 \<le> arctan (1 / 9)" by (rule arctan_ge_cubic) simp
  have d: "degrees (arctan (4 / 5)) = 45 - 180 * arctan (1 / 9) / pi"
    using pi_gt_zero by (simp add: degrees_def arctan_four_fifths field_simps)
  have "6 * pi < 180 * arctan (1 / 9)" using l pi_upper by (simp add: power3_eq_cube)
  then have lo: "6 < 180 * arctan (1 / 9) / pi" using pi_gt_zero by (simp add: field_simps)
  have "180 * arctan (1 / 9) \<le> 7 * pi" using u pi_lower by simp
  then have hi: "180 * arctan (1 / 9) / pi \<le> 7" using pi_gt_zero by (simp add: field_simps)
  have b: "38 \<le> degrees (arctan (4 / 5))" "degrees (arctan (4 / 5)) < 39"
    using lo hi d by simp_all
  then have "\<lfloor>degrees (arctan (4 / 5))\<rfloor> = 38" by linarith
  moreover have "find_angle 120 200 160 150 = py_int (degrees (arctan (4 / 5)))"
    using a by (simp add: find_angle_def Let_def)
  ultimately show ?thesis using b(1) by (simp add: py_int_def)
qed

lemma find_distance_horizontal: "find_distance x1 y x2 y = \<bar>x2 - x1\<bar>"
  by (simp add: find_distance_def)

lemma find_distance_nonneg: "0 \<le> find_distance x1 y1 x2 y2"
  by (simp add: find_distance_def)


text \<open>
  C6. \<^verbatim>\<open>find_distance\<close> is symmetric under swapping the two points and is 0 from
  a point to itself; \<^verbatim>\<open>find_angle\<close> is symmetric under swapping the two points.
\<close>

theorem geometry_symmetric:
  "find_distance x1 y1 x2 y2 = find_distance x2 y2 x1 y1 \<and>
   find_distance x y x y = 0 \<and>
   find_angle x1 y1 x2 y2 = find_angle x2 y2 x1 y1"
  by (simp add: find_distance_def find_angle_def power2_commute abs_minus_commute)

section \<open>The lookups of the required landmarks\<close>

lemma bind_result_Inr: "bind_result (Inr v) f = f v"
  by (simp add: bind_result_def)

lemma bind_result_Inl: "bind_result (Inl e) f = Inl e"
  by (simp add: bind_result_def)

lemma lm_get_complete: "25 \<le> length lm \<Longrightarrow> lm_get lm k = Inr (lm ! landmark_index k)"
  by (cases k) (auto simp: lm_get_def)

lemma lm_get_cases:
  "lm_get lm k = Inl (IndexError ''list index out of range'') \<or> (\<exists>v. lm_get lm k = Inr v)"
  by (simp add: lm_get_def)

lemma landmark_index_bound: "landmark_index k < 25"
  by (cases k) simp_all

lemma lm_get_fails:
  assumes "lm_get lm k = Inl e"
  shows "e = IndexError ''list index out of range'' \<and> length lm < 25"
proof -
  from assms have "\<not> landmark_index k < length lm" and "e = IndexError ''list index out of range''"
    by (auto simp: lm_get_def split: if_splits)
  then show ?thesis using landmark_index_bound [of k] by simp
qed

lemma bind_result_fails:
  assumes "m = Inl e \<or> (\<exists>v. m = Inr v)" and "\<And>v. f v = Inl e"
  shows "bind_result m f = Inl e"
  using assms by (auto simp: bind_result_def)

lemma lookups_complete:
  assumes "25 \<le> length lm"
  shows "bind_result (lm_get lm NOSE) (\<lambda>a.
         bind_result (lm_get lm LEFT_EYE) (\<lambda>b.
         bind_result (lm_get lm RIGHT_EYE) (\<lambda>c.
         bind_result (lm_get lm LEFT_EAR) (\<lambda>d.
         bind_result (lm_get lm RIGHT_EAR) (\<lambda>e.
         bind_result (lm_get lm LEFT_SHOULDER) (\<lambda>f.
         bind_result (lm_get lm RIGHT_SHOULDER) (\<lambda>g.
         bind_result (lm_get lm LEFT_HIP) (\<lambda>h.
         bind_result (lm_get lm RIGHT_HIP) (\<lambda>i. k a b c d e f g h i)))))))))
       = k (lm ! 0) (lm ! 2) (lm ! 5) (lm ! 7) (lm ! 8) (lm ! 11) (lm ! 12) (lm ! 23) (lm ! 24)"
  using assms by (simp add: lm_get_complete bind_result_Inr)

lemma lookups_incomplete:
  assumes "length lm < 25"
  shows "bind_result (lm_get lm NOSE) (\<lambda>a.
         bind_result (lm_get lm LEFT_EYE) (\<lambda>b.
         bind_result (lm_get lm RIGHT_EYE) (\<lambda>c.
         bind_result (lm_get lm LEFT_EAR) (\<lambda>d.
         bind_result (lm_get lm RIGHT_EAR) (\<lambda>e.
         bind_result (lm_get lm LEFT_SHOULDER) (\<lambda>f.
         bind_result (lm_get lm RIGHT_SHOULDER) (\<lambda>g.
         bind_result (lm_get lm LEFT_HIP) (\<lambda>h.
         bind_result (lm_get lm RIGHT_HIP) (\<lambda>i. k a b c d e f g h i)))))))))
       = Inl (IndexError ''list index out of range'')"
proof -
  have last: "lm_get lm RIGHT_HIP = Inl (IndexError ''list index out of range'')"
    using assms by (simp add: lm_get_def)
  show ?thesis
    apply (rule bind_result_fails [OF lm_get_cases])
    apply (rule bind_result_fails [OF lm_get_cases])
    apply (rule bind_result_fails [OF lm_get_cases])
    apply (rule bind_result_fails [OF lm_get_cases])
    apply (rule bind_result_fails [OF lm_get_cases])
    apply (rule bind_result_fails [OF lm_get_cases])
    apply (rule bind_result_fails [OF lm_get_cases])
    apply (rule bind_result_fails [OF lm_get_cases])
    apply (simp add: last bind_result_Inl)
    done
qed

section \<open>The three outcomes of the analysis\<close>

lemma analyze_absent:
  "analyze_posture None frame = Inr (Unavailable ''No pose landmarks detected.'' None)"
  "pose_landmarks r = None \<Longrightarrow>
     analyze_posture (Some r) frame = Inr (Unavailable ''No pose landmarks detected.'' None)"
  by (simp_all add: analyze_posture_def)

lemma analyze_incomplete:
  assumes "pose_landmarks r = Some lm" and "length lm < 25"
  shows "analyze_posture (Some r) frame =
           Inr (Unavailable ''Error processing landmarks: list index out of range'' None)"
  using assms unfolding analyze_posture_def
  by (simp add: lookups_incomplete split: prod.split)

lemma analyze_gate_fail:
  assumes "pose_landmarks r = Some lm" and "25 \<le> length lm"
    and "lm_visibility (lm ! 11) < 1 / 2 \<or> lm_visibility (lm ! 12) < 1 / 2 \<or>
         lm_visibility (lm ! 23) < 1 / 2"
  shows "analyze_posture (Some r) frame =
     Inr (Unavailable ''Key landmarks not visible enough'' (Some (visibility_map lm)))"
  using assms(1,3) unfolding analyze_posture_def visibility_map_def
  by (simp add: lookups_complete [OF assms(2)] Let_def split: prod.split)

lemma analyze_gate_pass:
  assumes "pose_landmarks r = Some lm" and "25 \<le> length lm" and "shape frame = (h, w)"
    and "\<not> (lm_visibility (lm ! 11) < 1 / 2 \<or> lm_visibility (lm ! 12) < 1 / 2 \<or>
            lm_visibility (lm ! 23) < 1 / 2)"
  shows "analyze_posture (Some r) frame =
     Inr (Assessment (analyze_posture_metrics (lm ! 7) (lm ! 8) (lm ! 11) (lm ! 12)
        (lm ! 23) (lm ! 24) (visibility_map lm) h w))"
  using assms(1,3,4) unfolding analyze_posture_def visibility_map_def
  by (simp add: lookups_complete [OF assms(2)] Let_def)

lemma analyze_posture_returns: "\<exists>d. analyze_posture results frame = Inr d"
proof (cases "case results of None \<Rightarrow> None | Some r \<Rightarrow> pose_landmarks r")
  case None
  then show ?thesis by (simp add: analyze_posture_def)
next
  case (Some lm)
  then obtain r where r: "results = Some r" "pose_landmarks r = Some lm"
    by (cases results) simp_all
  obtain h w where hw: "shape frame = (h, w)" by (cases "shape frame")
  show ?thesis
  proof (cases "25 \<le> length lm")
    case False
    then have "length lm < 25" by simp
    from analyze_incomplete [OF r(2) this, of frame] r(1) show ?thesis by simp
  next
    case True
    show ?thesis
    proof (cases "lm_visibility (lm ! 11) < 1 / 2 \<or> lm_visibility (lm ! 12) < 1 / 2 \<or>
                  lm_visibility (lm ! 23) < 1 / 2")
      case True
      from analyze_gate_fail [OF r(2) \<open>25 \<le> length lm\<close> True, of frame] r(1)
      show ?thesis by simp
    next
      case False
      from analyze_gate_pass [OF r(2) True hw False] r(1) show ?thesis by simp
    qed
  qed
qed

lemma assessment_inversion:
  assumes "analyze_posture results frame = Inr (Assessment a)"
  obtains r lm h w where "results = Some r" and "pose_landmarks r = Some lm"
    and "25 \<le> length lm" and "shape frame = (h, w)"
    and "a = analyze_posture_metrics (lm ! 7) (lm ! 8) (lm ! 11) (lm ! 12)
               (lm ! 23) (lm ! 24) (visibility_map lm) h w"
proof -
  obtain r where r1: "results = Some r"
    using assms analyze_absent(1) [where frame = frame] by (cases results) simp_all
  obtain lm where r2: "pose_landmarks r = Some lm"
    using assms r1 analyze_absent(2) [where frame = frame and r = r]
    by (cases "pose_landmarks r") simp_all
  note r = r1 r2
  obtain h w where hw: "shape frame = (h, w)" by (cases "shape frame")
  have len: "25 \<le> length lm"
  proof (rule ccontr)
    assume "\<not> 25 \<le> length lm"
    then have "length lm < 25" by simp
    from analyze_incomplete [OF r(2) this, of frame] assms r(1) show False by simp
  qed
  have gate: "\<not> (lm_visibility (lm ! 11) < 1 / 2 \<or> lm_visibility (lm ! 12) < 1 / 2 \<or>
                lm_visibility (lm ! 23) < 1 / 2)"
  proof
    assume "lm_visibility (lm ! 11) < 1 / 2 \<or> lm_visibility (lm ! 12) < 1 / 2 \<or>
            lm_visibility (lm ! 23) < 1 / 2"
    from analyze_gate_fail [OF r(2) len this, of frame] assms r(1) show False by simp
  qed
  from analyze_gate_pass [OF r(2) len hw gate] assms r(1)
  have "a = analyze_posture_metrics (lm ! 7) (lm ! 8) (lm ! 11) (lm ! 12)
               (lm ! 23) (lm ! 24) (visibility_map lm) h w"
    by simp
  with r len hw that show thesis by blast
qed

section \<open>The fields of the assessment\<close>

lemma landmarks_lookup:
  "map_of [(''mid_shoulder'', a), (''mid_hip'', b), (''mid_ear'', c), (''l_shldr'', d),
           (''r_shldr'', e), (''l_ear'', f), (''r_ear'', g), (''l_hip'', i), (''r_hip'', j)]
     ''mid_shoulder'' = Some a"
  "map_of [(''mid_shoulder'', a), (''mid_hip'', b), (''mid_ear'', c), (''l_shldr'', d),
           (''r_shldr'', e), (''l_ear'', f), (''r_ear'', g), (''l_hip'', i), (''r_hip'', j)]
     ''mid_ear'' = Some c"
  by simp_all

lemma metrics_thresholds:
  "is_aligned (analyze_posture_metrics le re ls rs lh rh vis h w) =
     (shoulder_offset (analyze_posture_metrics le re ls rs lh rh vis h w) < 30)"
  "is_neck_good (analyze_posture_metrics le re ls rs lh rh vis h w) =
     (neck_inclination (analyze_posture_metrics le re ls rs lh rh vis h w) < 35)"
  "is_torso_good (analyze_posture_metrics le re ls rs lh rh vis h w) =
     (torso_inclination (analyze_posture_metrics le re ls rs lh rh vis h w) < 10)"
  "is_head_position_good (analyze_posture_metrics le re ls rs lh rh vis h w) =
     (forward_head_ratio (analyze_posture_metrics le re ls rs lh rh vis h w) < 2 / 10)"
  "is_good_posture (analyze_posture_metrics le re ls rs lh rh vis h w) =
     (is_aligned (analyze_posture_metrics le re ls rs lh rh vis h w) \<and>
      is_neck_good (analyze_posture_metrics le re ls rs lh rh vis h w) \<and>
      is_torso_good (analyze_posture_metrics le re ls rs lh rh vis h w) \<and>
      is_head_position_good (analyze_posture_metrics le re ls rs lh rh vis h w))"
  unfolding analyze_posture_metrics_def Let_def
  by (simp_all only: full_assessment.select_convs)

lemma metrics_midpoints:
  "map_of (landmarks (analyze_posture_metrics le re ls rs lh rh vis h w)) ''mid_shoulder'' =
     Some (midpoint (pixel_of ls h w) (pixel_of rs h w))"
  "map_of (landmarks (analyze_posture_metrics le re ls rs lh rh vis h w)) ''mid_ear'' =
     Some (midpoint (pixel_of le h w) (pixel_of re h w))"
  unfolding analyze_posture_metrics_def Let_def pixel_of_def midpoint_def
  by (simp_all only: full_assessment.select_convs landmarks_lookup fst_conv snd_conv)

lemma metrics_shoulder_distance:
  "shoulder_distance (analyze_posture_metrics le re ls rs lh rh vis h w) =
     find_distance (of_int (fst (pixel_of ls h w))) (of_int (snd (pixel_of ls h w)))
       (of_int (fst (pixel_of rs h w))) (of_int (snd (pixel_of rs h w)))"
  unfolding analyze_posture_metrics_def Let_def pixel_of_def
  by (simp only: full_assessment.select_convs fst_conv snd_conv)

lemma metrics_neck_inclination:
  "neck_inclination (analyze_posture_metrics le re ls rs lh rh vis h w) =
     find_angle
       (of_int (fst (midpoint (pixel_of ls h w) (pixel_of rs h w))))
       (of_int (snd (midpoint (pixel_of ls h w) (pixel_of rs h w))))
       (of_int (fst (midpoint (pixel_of le h w) (pixel_of re h w))))
       (of_int (snd (midpoint (pixel_of le h w) (pixel_of re h w))))"
  unfolding analyze_posture_metrics_def Let_def pixel_of_def midpoint_def
  by (simp only: full_assessment.select_convs fst_conv snd_conv)

lemma max_as_if: "max 0 (a - b) = (if a > b then a - b else (0::int))"
  by simp

lemma metrics_forward_head_ratio:
  "forward_head_ratio (analyze_posture_metrics le re ls rs lh rh vis h w) =
     (if 0 < shoulder_distance (analyze_posture_metrics le re ls rs lh rh vis h w)
      then of_int (max 0 (fst (midpoint (pixel_of le h w) (pixel_of re h w)) -
                          fst (midpoint (pixel_of ls h w) (pixel_of rs h w)))) /
           shoulder_distance (analyze_posture_metrics le re ls rs lh rh vis h w)
      else 0)"
  unfolding analyze_posture_metrics_def Let_def pixel_of_def midpoint_def max_as_if
  by (simp only: full_assessment.select_convs fst_conv snd_conv)

section \<open>The analysis on the example inputs\<close>

lemma analyze_detected:
  assumes "25 \<le> length lm" and "shape frame = (h, w)"
  shows "analyze_posture (detected lm) frame =
     (if lm_visibility (lm ! 11) < 1 / 2 \<or> lm_visibility (lm ! 12) < 1 / 2 \<or>
         lm_visibility (lm ! 23) < 1 / 2
      then Inr (Unavailable ''Key landmarks not visible enough'' (Some (visibility_map lm)))
      else Inr (Assessment (analyze_posture_metrics (lm ! 7) (lm ! 8) (lm ! 11) (lm ! 12)
             (lm ! 23) (lm ! 24) (visibility_map lm) h w)))"
proof -
  have p: "pose_landmarks \<lparr>pose_landmarks = Some lm\<rparr> = Some lm" by simp
  show ?thesis
  proof (cases "lm_visibility (lm ! 11) < 1 / 2 \<or> lm_visibility (lm ! 12) < 1 / 2 \<or>
                lm_visibility (lm ! 23) < 1 / 2")
    case True
    from analyze_gate_fail [OF p assms(1) True, of frame] True
    show ?thesis unfolding detected_def by (simp only: if_True)
  next
    case False
    from analyze_gate_pass [OF p assms(1,2) False] False
    show ?thesis unfolding detected_def by (simp only: if_False)
  qed
qed

lemma landmarks_of_nth:
  "length (landmarks_of le re ls rs lh rh) = 33"
  "landmarks_of le re ls rs lh rh ! 7 = le"
  "landmarks_of le re ls rs lh rh ! 8 = re"
  "landmarks_of le re ls rs lh rh ! 11 = ls"
  "landmarks_of le re ls rs lh rh ! 12 = rs"
  "landmarks_of le re ls rs lh rh ! 23 = lh"
  "landmarks_of le re ls rs lh rh ! 24 = rh"
  by (simp_all add: landmarks_of_def Let_def)

lemma visibility_map_landmarks_of:
  "visibility_map (landmarks_of le re ls rs lh rh) =
     [(''l_shoulder'', lm_visibility ls), (''r_shoulder'', lm_visibility rs),
      (''l_ear'', lm_visibility le), (''r_ear'', lm_visibility re),
      (''l_hip'', lm_visibility lh), (''r_hip'', lm_visibility rh)]"
  unfolding visibility_map_def by (simp only: landmarks_of_nth)

lemma analyze_landmarks_of:
  "analyze_posture (detected (landmarks_of le re ls rs lh rh)) example_frame =
     (if lm_visibility ls < 1 / 2 \<or> lm_visibility rs < 1 / 2 \<or> lm_visibility lh < 1 / 2
      then Inr (Unavailable ''Key landmarks not visible enough''
             (Some (visibility_map (landmarks_of le re ls rs lh rh))))
      else Inr (Assessment (analyze_posture_metrics le re ls rs lh rh
             (visibility_map (landmarks_of le re ls rs lh rh)) 400 640)))"
proof -
  have len: "25 \<le> length (landmarks_of le re ls rs lh rh)"
    by (simp add: landmarks_of_nth)
  have sh: "shape example_frame = (400, 640)" by (simp add: example_frame_def)
  show ?thesis
    unfolding analyze_detected [OF len sh] by (simp only: landmarks_of_nth)
qed

lemma pixel_of_lmk:
  "pixel_of (lmk px py v) h w = (py_int (px * of_int w), py_int (py * of_int h))"
  by (simp add: pixel_of_def lmk_def)

lemma sqrt_1600: "sqrt 1600 = 40"
  by (rule real_sqrt_unique) simp_all

lemma sqrt_2500: "sqrt 2500 = 50"
  by (rule real_sqrt_unique) simp_all

lemma scenario_A_analysis:
  "analyze_posture (detected scenario_A) example_frame = Inr (Assessment scenario_A_assessment)"
  unfolding scenario_A_def analyze_landmarks_of visibility_map_landmarks_of
  by (simp add: lmk_def analyze_posture_metrics_def Let_def py_int_def find_distance_def
      find_angle_vertical sqrt_1600 scenario_A_assessment_def)

lemma tilted_shoulders_analysis:
  "analyze_posture (detected tilted_shoulders) example_frame =
     Inr (Assessment tilted_shoulders_assessment)"
  unfolding tilted_shoulders_def analyze_landmarks_of visibility_map_landmarks_of
  by (simp add: lmk_def analyze_posture_metrics_def Let_def py_int_def find_distance_def
      find_angle_vertical sqrt_2500 tilted_shoulders_assessment_def)

lemma degenerate_analysis:
  "analyze_posture (detected degenerate) example_frame = Inr (Assessment degenerate_assessment)"
  unfolding degenerate_def analyze_landmarks_of visibility_map_landmarks_of
  by (simp add: lmk_def analyze_posture_metrics_def Let_def py_int_def find_distance_def
      find_angle_vertical find_angle_diagonal degenerate_assessment_def)

section \<open>The claims about the analysis\<close>

text \<open>
  C1. In every full assessment the four sub-judgments are the strict comparisons of
  the reported metrics with 30, 35, 10 and 0.2 (so a metric equal to its limit
  fails), and the overall verdict is the conjunction of the four.
\<close>

theorem threshold_classification:
  assumes "analyze_posture results frame = Inr (Assessment a)"
  shows "is_aligned a = (shoulder_offset a < 30) \<and>
     is_neck_good a = (neck_inclination a < 35) \<and>
     is_torso_good a = (torso_inclination a < 10) \<and>
     is_head_position_good a = (forward_head_ratio a < 2 / 10) \<and>
     is_good_posture a =
       (is_aligned a \<and> is_neck_good a \<and> is_torso_good a \<and> is_head_position_good a)"
proof -
  from assms obtain le re ls rs lh rh vis h w
    where a: "a = analyze_posture_metrics le re ls rs lh rh vis h w"
    by (rule assessment_inversion)
  show ?thesis
    unfolding a using metrics_thresholds [of le re ls rs lh rh vis h w] by blast
qed

text \<open>
  The shoulders tilted by exactly 30 pixels: the offset equals its limit and the
  alignment judgment, hence the overall verdict, is negative.
\<close>

theorem threshold_classification_witness:
  "analyze_posture (detected tilted_shoulders) example_frame =
     Inr (Assessment tilted_shoulders_assessment) \<and>
   shoulder_offset tilted_shoulders_assessment = 30 \<and>
   \<not> is_aligned tilted_shoulders_assessment \<and>
   is_neck_good tilted_shoulders_assessment \<and>
   is_torso_good tilted_shoulders_assessment \<and>
   is_head_position_good tilted_shoulders_assessment \<and>
   \<not> is_good_posture tilted_shoulders_assessment"
proof -
  have "shoulder_offset tilted_shoulders_assessment = 30"
    and "neck_inclination tilted_shoulders_assessment = 0"
    and "torso_inclination tilted_shoulders_assessment = 0"
    and "forward_head_ratio tilted_shoulders_assessment = 0"
    by (simp_all add: tilted_shoulders_assessment_def)
  with threshold_classification [OF tilted_shoulders_analysis] tilted_shoulders_analysis
  show ?thesis by simp
qed

text \<open>
  C2. When the landmark list holds every required landmark and the left shoulder, the
  right shoulder or the left hip has visibility below 0.5, the result is the
  unavailable variant with the message of the gate and the visibility dictionary,
  whose keys are the six tracked points; nothing else about the landmarks matters.
  When the three visibilities are exactly 0.5 the result is a full assessment.
\<close>

theorem visibility_gate:
  assumes "25 \<le> length lm"
  shows "(lm_visibility (lm ! landmark_index LEFT_SHOULDER) < 1 / 2 \<or>
          lm_visibility (lm ! landmark_index RIGHT_SHOULDER) < 1 / 2 \<or>
          lm_visibility (lm ! landmark_index LEFT_HIP) < 1 / 2 \<longrightarrow>
          analyze_posture (detected lm) frame =
            Inr (Unavailable ''Key landmarks not visible enough''
                   (Some (visibility_map lm)))) \<and>
         map fst (visibility_map lm) =
           [''l_shoulder'', ''r_shoulder'', ''l_ear'', ''r_ear'', ''l_hip'', ''r_hip''] \<and>
         (lm_visibility (lm ! landmark_index LEFT_SHOULDER) = 1 / 2 \<and>
          lm_visibility (lm ! landmark_index RIGHT_SHOULDER) = 1 / 2 \<and>
          lm_visibility (lm ! landmark_index LEFT_HIP) = 1 / 2 \<longrightarrow>
          (\<exists>a. analyze_posture (detected lm) frame = Inr (Assessment a)))"
proof -
  obtain h w where hw: "shape frame = (h, w)" by (cases "shape frame")
  have keys: "map fst (visibility_map lm) =
      [''l_shoulder'', ''r_shoulder'', ''l_ear'', ''r_ear'', ''l_hip'', ''r_hip'']"
    by (simp add: visibility_map_def)
  show ?thesis
    unfolding analyze_detected [OF assms hw] using keys by simp
qed

text \<open>
  Scenario C (right shoulder at 0.3, everything else fully visible) is refused with
  the six visibilities; the input with every visibility at 0.5 is assessed.
\<close>

theorem visibility_gate_witness:
  "(25 \<le> length scenario_C \<and>
    lm_visibility (scenario_C ! landmark_index RIGHT_SHOULDER) < 1 / 2 \<and>
    analyze_posture (detected scenario_C) example_frame =
      Inr (Unavailable ''Key landmarks not visible enough''
        (Some [(''l_shoulder'', 1), (''r_shoulder'', 3 / 10), (''l_ear'', 1), (''r_ear'', 1),
               (''l_hip'', 1), (''r_hip'', 1)]))) \<and>
   (25 \<le> length at_threshold \<and>
    lm_visibility (at_threshold ! landmark_index LEFT_SHOULDER) = 1 / 2 \<and>
    lm_visibility (at_threshold ! landmark_index RIGHT_SHOULDER) = 1 / 2 \<and>
    lm_visibility (at_threshold ! landmark_index LEFT_HIP) = 1 / 2 \<and>
    (\<exists>a. analyze_posture (detected at_threshold) example_frame = Inr (Assessment a)))"
proof -
  have c: "25 \<le> length scenario_C"
    "lm_visibility (scenario_C ! landmark_index RIGHT_SHOULDER) = 3 / 10"
    "visibility_map scenario_C =
       [(''l_shoulder'', 1), (''r_shoulder'', 3 / 10), (''l_ear'', 1), (''r_ear'', 1),
        (''l_hip'', 1), (''r_hip'', 1)]"
    by (simp_all add: scenario_C_def landmarks_of_nth visibility_map_landmarks_of lmk_def)
  have t: "25 \<le> length at_threshold"
    "lm_visibility (at_threshold ! landmark_index LEFT_SHOULDER) = 1 / 2"
    "lm_visibility (at_threshold ! landmark_index RIGHT_SHOULDER) = 1 / 2"
    "lm_visibility (at_threshold ! landmark_index LEFT_HIP) = 1 / 2"
    by (simp_all add: at_threshold_def landmarks_of_nth lmk_def)
  from visibility_gate [OF c(1), of example_frame] visibility_gate [OF t(1), of example_frame]
  show ?thesis using c t by simp
qed

text \<open>
  C4. In every full assessment the forward-head ratio is the distance
  \<open>max 0 (mid_ear_x - mid_shoulder_x)\<close>, taken from the reported midpoints, divided by
  the shoulder distance when that is positive, and 0 otherwise. The shoulder distance
  is never negative, so the ratio is 0 exactly when it is 0, and no division by zero
  is evaluated.
\<close>

theorem forward_head_ratio_safe:
  assumes "analyze_posture results frame = Inr (Assessment a)"
  shows "\<exists>ms me.
     map_of (landmarks a) ''mid_shoulder'' = Some ms \<and>
     map_of (landmarks a) ''mid_ear'' = Some me \<and>
     forward_head_ratio a =
       (if 0 < shoulder_distance a
        then of_int (max 0 (fst me - fst ms)) / shoulder_distance a else 0) \<and>
     0 \<le> shoulder_distance a \<and>
     (shoulder_distance a = 0 \<longrightarrow> forward_head_ratio a = 0)"
proof -
  from assms obtain le re ls rs lh rh vis h w
    where a: "a = analyze_posture_metrics le re ls rs lh rh vis h w"
    by (rule assessment_inversion)
  let ?ms = "midpoint (pixel_of ls h w) (pixel_of rs h w)"
  let ?me = "midpoint (pixel_of le h w) (pixel_of re h w)"
  have m: "map_of (landmarks a) ''mid_shoulder'' = Some ?ms"
    "map_of (landmarks a) ''mid_ear'' = Some ?me"
    unfolding a by (rule metrics_midpoints)+
  have r: "forward_head_ratio a =
       (if 0 < shoulder_distance a
        then of_int (max 0 (fst ?me - fst ?ms)) / shoulder_distance a else 0)"
    unfolding a by (rule metrics_forward_head_ratio)
  have d: "0 \<le> shoulder_distance a"
    unfolding a metrics_shoulder_distance by (rule find_distance_nonneg)
  have z: "shoulder_distance a = 0 \<longrightarrow> forward_head_ratio a = 0"
    using r by simp
  from m r d z show ?thesis by blast
qed

text \<open>
  The degenerate frame: the ears are 50 pixels ahead of the shoulders, the shoulder
  distance is 0 and the ratio is 0.
\<close>

theorem forward_head_ratio_safe_witness:
  "analyze_posture (detected degenerate) example_frame = Inr (Assessment degenerate_assessment) \<and>
   map_of (landmarks degenerate_assessment) ''mid_shoulder'' = Some (100, 200) \<and>
   map_of (landmarks degenerate_assessment) ''mid_ear'' = Some (150, 150) \<and>
   shoulder_distance degenerate_assessment = 0 \<and>
   forward_head_ratio degenerate_assessment = 0"
proof -
  have "map_of (landmarks degenerate_assessment) ''mid_shoulder'' = Some (100, 200)"
    and "map_of (landmarks degenerate_assessment) ''mid_ear'' = Some (150, 150)"
    and "shoulder_distance degenerate_assessment = 0"
    by (simp_all add: degenerate_assessment_def)
  with forward_head_ratio_safe [OF degenerate_analysis] degenerate_analysis
  show ?thesis by simp
qed

text \<open>
  C7. Without a detection result, or with a result that holds no landmarks, the
  analysis returns the unavailable variant with the message
  \<open>No pose landmarks detected.\<close> and no visibility dictionary.
\<close>

theorem no_landmarks_detected:
  "analyze_posture None frame = Inr (Unavailable ''No pose landmarks detected.'' None) \<and>
   analyze_posture (Some \<lparr>pose_landmarks = None\<rparr>) frame =
     Inr (Unavailable ''No pose landmarks detected.'' None)"
  by (simp add: analyze_posture_def)

text \<open>
  C8. When the lookup of a required landmark fails, the analysis returns the
  unavailable variant whose message is \<open>Error processing landmarks: \<close> followed by
  the text of the failure, without a visibility dictionary; the result is a value,
  not an exception.
\<close>

theorem lookup_failure_caught:
  assumes "lm_get lm k = Inl e"
  shows "analyze_posture (detected lm) frame =
           Inr (Unavailable (''Error processing landmarks: '' @ str_error e) None) \<and>
         (\<forall>e'. analyze_posture (detected lm) frame \<noteq> Inl e')"
proof -
  from lm_get_fails [OF assms]
  have e: "e = IndexError ''list index out of range''" and len: "length lm < 25"
    by simp_all
  have p: "pose_landmarks \<lparr>pose_landmarks = Some lm\<rparr> = Some lm" by simp
  from analyze_incomplete [OF p len, of frame]
  show ?thesis unfolding detected_def e by simp
qed

text \<open>
  A list of 12 landmarks: the lookup of the right shoulder (index 12) fails.
\<close>

theorem lookup_failure_caught_witness:
  "lm_get truncated_pose RIGHT_SHOULDER = Inl (IndexError ''list index out of range'') \<and>
   analyze_posture (detected truncated_pose) example_frame =
     Inr (Unavailable ''Error processing landmarks: list index out of range'' None)"
proof -
  have f: "lm_get truncated_pose RIGHT_SHOULDER = Inl (IndexError ''list index out of range'')"
    by (simp add: lm_get_def truncated_pose_def)
  from lookup_failure_caught [OF f, of example_frame] f
  show ?thesis by simp
qed

text \<open>
  C10. When every required landmark is present and the left shoulder, the right
  shoulder and the left hip have visibility at least 0.5, the analysis returns a full
  assessment whatever the visibility of the other landmarks. Its neck inclination is
  the angle from the shoulder midpoint to the midpoint of the two ear positions, and
  its forward-head ratio is computed from the same ear midpoint.
\<close>

theorem ears_not_gated:
  assumes "25 \<le> length lm" and "shape frame = (h, w)"
    and "1 / 2 \<le> lm_visibility (lm ! landmark_index LEFT_SHOULDER)"
    and "1 / 2 \<le> lm_visibility (lm ! landmark_index RIGHT_SHOULDER)"
    and "1 / 2 \<le> lm_visibility (lm ! landmark_index LEFT_HIP)"
  shows "\<exists>a ms me.
     analyze_posture (detected lm) frame = Inr (Assessment a) \<and>
     ms = midpoint (pixel_of (lm ! landmark_index LEFT_SHOULDER) h w)
            (pixel_of (lm ! landmark_index RIGHT_SHOULDER) h w) \<and>
     me = midpoint (pixel_of (lm ! landmark_index LEFT_EAR) h w)
            (pixel_of (lm ! landmark_index RIGHT_EAR) h w) \<and>
     neck_inclination a =
       find_angle (of_int (fst ms)) (of_int (snd ms)) (of_int (fst me)) (of_int (snd me)) \<and>
     forward_head_ratio a =
       (if 0 < shoulder_distance a
        then of_int (max 0 (fst me - fst ms)) / shoulder_distance a else 0)"
proof -
  let ?a = "analyze_posture_metrics (lm ! 7) (lm ! 8) (lm ! 11) (lm ! 12)
             (lm ! 23) (lm ! 24) (visibility_map lm) h w"
  have gate: "\<not> (lm_visibility (lm ! 11) < 1 / 2 \<or> lm_visibility (lm ! 12) < 1 / 2 \<or>
                lm_visibility (lm ! 23) < 1 / 2)"
    using assms(3-5) by simp
  have "analyze_posture (detected lm) frame = Inr (Assessment ?a)"
    unfolding analyze_detected [OF assms(1,2)] using gate by (simp only: if_False)
  moreover have "neck_inclination ?a =
       find_angle
         (of_int (fst (midpoint (pixel_of (lm ! 11) h w) (pixel_of (lm ! 12) h w))))
         (of_int (snd (midpoint (pixel_of (lm ! 11) h w) (pixel_of (lm ! 12) h w))))
         (of_int (fst (midpoint (pixel_of (lm ! 7) h w) (pixel_of (lm ! 8) h w))))
         (of_int (snd (midpoint (pixel_of (lm ! 7) h w) (pixel_of (lm ! 8) h w))))"
    by (rule metrics_neck_inclination)
  moreover have "forward_head_ratio ?a =
       (if 0 < shoulder_distance ?a
        then of_int (max 0 (fst (midpoint (pixel_of (lm ! 7) h w) (pixel_of (lm ! 8) h w)) -
                            fst (midpoint (pixel_of (lm ! 11) h w) (pixel_of (lm ! 12) h w)))) /
             shoulder_distance ?a
        else 0)"
    by (rule metrics_forward_head_ratio)
  ultimately show ?thesis by simp
qed

text \<open>
  Both ears and the right hip at visibility 0, the gating landmarks at 0.5: the
  result is a full assessment whose neck inclination, 38 degrees, comes from the ear
  midpoint (160, 150).
\<close>

theorem ears_not_gated_witness:
  "25 \<le> length hidden_ears \<and> shape example_frame = (400, 640) \<and>
   lm_visibility (hidden_ears ! landmark_index LEFT_EAR) = 0 \<and>
   lm_visibility (hidden_ears ! landmark_index RIGHT_EAR) = 0 \<and>
   1 / 2 \<le> lm_visibility (hidden_ears ! landmark_index LEFT_SHOULDER) \<and>
   1 / 2 \<le> lm_visibility (hidden_ears ! landmark_index RIGHT_SHOULDER) \<and>
   1 / 2 \<le> lm_visibility (hidden_ears ! landmark_index LEFT_HIP) \<and>
   (\<exists>a. analyze_posture (detected hidden_ears) example_frame = Inr (Assessment a) \<and>
        neck_inclination a = 38)"
proof -
  have h: "25 \<le> length hidden_ears" "shape example_frame = (400, 640)"
    "1 / 2 \<le> lm_visibility (hidden_ears ! landmark_index LEFT_SHOULDER)"
    "1 / 2 \<le> lm_visibility (hidden_ears ! landmark_index RIGHT_SHOULDER)"
    "1 / 2 \<le> lm_visibility (hidden_ears ! landmark_index LEFT_HIP)"
    by (simp_all add: hidden_ears_def landmarks_of_nth lmk_def example_frame_def)
  have e: "lm_visibility (hidden_ears ! landmark_index LEFT_EAR) = 0"
    "lm_visibility (hidden_ears ! landmark_index RIGHT_EAR) = 0"
    by (simp_all add: hidden_ears_def landmarks_of_nth lmk_def)
  have p: "midpoint (pixel_of (hidden_ears ! landmark_index LEFT_SHOULDER) 400 640)
             (pixel_of (hidden_ears ! landmark_index RIGHT_SHOULDER) 400 640) = (120, 200)"
    "midpoint (pixel_of (hidden_ears ! landmark_index LEFT_EAR) 400 640)
             (pixel_of (hidden_ears ! landmark_index RIGHT_EAR) 400 640) = (160, 150)"
    by (simp_all add: hidden_ears_def landmarks_of_nth pixel_of_lmk midpoint_def py_int_def)
  from ears_not_gated [OF h] obtain a where
    "analyze_posture (detected hidden_ears) example_frame = Inr (Assessment a)"
    and "neck_inclination a = find_angle 120 200 160 150"
    unfolding p by auto
  then have "\<exists>a. analyze_posture (detected hidden_ears) example_frame = Inr (Assessment a) \<and>
        neck_inclination a = 38"
    by (simp add: find_angle_scenario_B)
  with h e show ?thesis by simp
qed

text \<open>
  C5, as the code has it. For shoulder midpoint (120, 200) and ear midpoint
  (160, 150) the neck inclination is 38 degrees, the integer part of 38.66, and the
  neck judgment is negative since 38 is not below 35. Scenario B run through the
  whole analysis gives these midpoints, this angle and this judgment.
\<close>

theorem scenario_B_neck_angle:
  "find_angle 120 200 160 150 = 38 \<and>
   (\<exists>a. analyze_posture (detected scenario_B) example_frame = Inr (Assessment a) \<and>
        map_of (landmarks a) ''mid_shoulder'' = Some (120, 200) \<and>
        map_of (landmarks a) ''mid_ear'' = Some (160, 150) \<and>
        neck_inclination a = 38 \<and> is_neck_good a = False)"
proof -
  let ?le = "lmk (15 / 64) (3 / 8) 1" and ?re = "lmk (17 / 64) (3 / 8) 1"
  let ?ls = "lmk (5 / 32) (1 / 2) 1" and ?rs = "lmk (7 / 32) (1 / 2) 1"
  let ?lh = "lmk (5 / 32) (3 / 4) 1" and ?rh = "lmk (7 / 32) (3 / 4) 1"
  let ?a = "analyze_posture_metrics ?le ?re ?ls ?rs ?lh ?rh
              (visibility_map (landmarks_of ?le ?re ?ls ?rs ?lh ?rh)) 400 640"
  have r: "analyze_posture (detected scenario_B) example_frame = Inr (Assessment ?a)"
    unfolding scenario_B_def analyze_landmarks_of by (simp add: lmk_def)
  have ms: "midpoint (pixel_of ?ls 400 640) (pixel_of ?rs 400 640) = (120, 200)"
    and me: "midpoint (pixel_of ?le 400 640) (pixel_of ?re 400 640) = (160, 150)"
    by (simp_all add: pixel_of_lmk midpoint_def py_int_def)
  have n: "neck_inclination ?a = 38"
    unfolding metrics_neck_inclination ms me by (simp add: find_angle_scenario_B)
  have g: "is_neck_good ?a = False"
    unfolding metrics_thresholds n by simp
  have m: "map_of (landmarks ?a) ''mid_shoulder'' = Some (120, 200)"
    "map_of (landmarks ?a) ''mid_ear'' = Some (160, 150)"
    unfolding metrics_midpoints ms me by simp_all
  from r n g m show ?thesis by (simp only: find_angle_scenario_B simp_thms) blast
qed

text \<open>The angle of that input is not 39.\<close>

theorem scenario_B_not_39: "find_angle 120 200 160 150 \<noteq> 39"
  by (simp add: find_angle_scenario_B)

section \<open>The claim about the overlay\<close>

text \<open>
  C9. For an assessment of the unavailable variant, and for no assessment at all, the
  renderer returns the frame it was given: same buffer, same shape, nothing drawn.
\<close>

theorem unavailable_not_drawn:
  "has_landmarks (Unavailable m v) = False \<and>
   draw_pose_annotations frame (Some (Unavailable m v)) = frame \<and>
   draw_pose_annotations frame None = frame"
  by (simp add: draw_pose_annotations_def)

text \<open>A full assessment is drawn: Scenario A adds four lines and three texts.\<close>

lemma scenario_A_drawn:
  "draw_pose_annotations example_frame (Some (Assessment scenario_A_assessment)) =
     example_frame\<lparr>drawn :=
       [Line (120, 200) (120, 150) (0, 255, 0) 2,
        Line (120, 200) (120, 300) (0, 255, 0) 2,
        Line (120, 200) (120, 50) (255, 255, 0) 2,
        Line (100, 200) (140, 200) (0, 255, 0) 3,
        PutText (''Neck: 0'' @ [CHR 0xB0]) (10, 30) (6 / 10) (0, 255, 0) 2,
        PutText (''Torso: 0'' @ [CHR 0xB0]) (10, 60) (6 / 10) (0, 255, 0) 2,
        PutText ''Posture: Good'' (10, 380) (6 / 10) (0, 255, 0) 2]\<rparr>"
  by (simp add: draw_pose_annotations_def scenario_A_assessment_def example_frame_def
      cv2_line_def cv2_putText_def str_int_def str_nat.simps digit_char_def Let_def)

end
